theory Spec2Isabelle
  imports Complex_Main "HOL-Library.AList"
begin

section \<open>JavaScript values\<close>

text \<open>
  The OpenAI descriptor works on untyped run-time objects: the request is taken apart by
  destructuring and spread, the provider event is read as \<open>any\<close>. Both are modelled as
  JavaScript values. An object is an association list from property names to values
  (the first binding of a name is the one that counts); a number is a rational, which
  covers every finite number a JSON document can hold.
\<close>

datatype jsval =
    JUndefined
  | JNull
  | JBool bool
  | JNum rat
  | JStr string
  | JArr "jsval list"
  | JObj "(string \<times> jsval) list"

type_synonym jsobj = "(string \<times> jsval) list"

datatype js_error = TypeError | Error string

text \<open>Sequencing of steps that may throw: the first exception ends the evaluation.\<close>

definition bind_e :: "js_error + 'a \<Rightarrow> ('a \<Rightarrow> js_error + 'b) \<Rightarrow> js_error + 'b" where
  "bind_e m f = (case m of Inl e \<Rightarrow> Inl e | Inr x \<Rightarrow> f x)"

text \<open>Truthiness, as tested by \<open>?:\<close>, \<open>||\<close>, \<open>!\<close> and \<open>if\<close>. An array is truthy even when empty.\<close>

fun truthy :: "jsval \<Rightarrow> bool" where
  "truthy JUndefined = False"
| "truthy JNull = False"
| "truthy (JBool b) = b"
| "truthy (JNum n) = (n \<noteq> 0)"
| "truthy (JStr s) = (s \<noteq> [])"
| "truthy (JArr xs) = True"
| "truthy (JObj kvs) = True"

text \<open>\<open>obj.k\<close> on a value known to be an object: a missing property reads as \<open>undefined\<close>.\<close>

definition obj_get :: "jsobj \<Rightarrow> string \<Rightarrow> jsval" where
  "obj_get obj k = (case map_of obj k of None \<Rightarrow> JUndefined | Some v \<Rightarrow> v)"

text \<open>\<open>k in obj\<close> on a value known to be an object.\<close>

definition obj_has :: "string \<Rightarrow> jsobj \<Rightarrow> bool" where
  "obj_has k obj = (map_of obj k \<noteq> None)"

text \<open>
  \<open>v[k]\<close> on any value, for a property name \<open>k\<close> that is neither an array index nor
  \<open>length\<close> nor inherited from a prototype (the names read here are \<open>choices\<close>,
  \<open>delta\<close>, \<open>message\<close>, \<open>content\<close> and \<open>text\<close>). Reading a property of \<open>undefined\<close>
  or \<open>null\<close> throws a TypeError; a primitive or an array has no such property.
\<close>

fun js_prop :: "jsval \<Rightarrow> string \<Rightarrow> js_error + jsval" where
  "js_prop JUndefined k = Inl TypeError"
| "js_prop JNull k = Inl TypeError"
| "js_prop (JObj kvs) k = Inr (obj_get kvs k)"
| "js_prop v k = Inr JUndefined"

text \<open>\<open>v[0]\<close>: the first element of an array, the first character of a string.\<close>

fun js_index0 :: "jsval \<Rightarrow> js_error + jsval" where
  "js_index0 JUndefined = Inl TypeError"
| "js_index0 JNull = Inl TypeError"
| "js_index0 (JArr xs) = Inr (case xs of [] \<Rightarrow> JUndefined | x # _ \<Rightarrow> x)"
| "js_index0 (JStr s) = Inr (case s of [] \<Rightarrow> JUndefined | c # _ \<Rightarrow> JStr [c])"
| "js_index0 (JObj kvs) = Inr (obj_get kvs ''0'')"
| "js_index0 v = Inr JUndefined"

text \<open>
  \<open>k in v\<close> for a name \<open>k\<close> as above: the right operand must be an object, otherwise the
  operator throws a TypeError. An array is an object without such a property.
\<close>

fun js_in :: "string \<Rightarrow> jsval \<Rightarrow> js_error + bool" where
  "js_in k (JObj kvs) = Inr (obj_has k kvs)"
| "js_in k (JArr xs) = Inr False"
| "js_in k v = Inl TypeError"

text \<open>\<open>v.length\<close>.\<close>

fun js_length :: "jsval \<Rightarrow> js_error + jsval" where
  "js_length JUndefined = Inl TypeError"
| "js_length JNull = Inl TypeError"
| "js_length (JArr xs) = Inr (JNum (of_nat (length xs)))"
| "js_length (JStr s) = Inr (JNum (of_nat (length s)))"
| "js_length (JObj kvs) = Inr (obj_get kvs ''length'')"
| "js_length v = Inr JUndefined"

section \<open>The OpenAI descriptor (core/llm/openai.ts)\<close>

datatype OpenAIModelId = Davinci | Curie | Codex | GPT3_5_Turbo | GPT4

fun OpenAIModelId_value :: "OpenAIModelId \<Rightarrow> string" where
  "OpenAIModelId_value Davinci = ''text-davinci-003''"
| "OpenAIModelId_value Curie = ''text-curie-001''"
| "OpenAIModelId_value Codex = ''code-davinci-002''"
| "OpenAIModelId_value GPT3_5_Turbo = ''gpt-3.5-turbo''"
| "OpenAIModelId_value GPT4 = ''gpt-4''"

text \<open>
  The argument of \<open>init\<close>: \<open>quality\<close> and \<open>debug\<close> picked from the model configuration,
  the two cache hooks optional. The hooks are functions of the caller; the descriptor only
  stores them, so their type is a parameter.
\<close>

record ('cg, 'cs) init_config =
  quality :: string
  debug :: "bool option"
  cacheGet :: "'cg option"
  cacheSet :: "'cs option"

text \<open>The object literal that \<open>init\<close> hands to \<open>new Model\<close>.\<close>

record ('cg, 'cs) ModelConfig =
  modelProvider :: string
  getModelId :: "jsobj \<Rightarrow> string"
  baseUrl :: string
  getPath :: "jsobj \<Rightarrow> string"
  debug :: "bool option"
  endOfStreamSentinel :: string
  cacheGet :: "'cg option"
  cacheSet :: "'cs option"
  transformForRequest :: "jsobj \<Rightarrow> jsobj \<Rightarrow> js_error + jsobj"
  transformResponse :: "jsval \<Rightarrow> js_error + jsval"

text \<open>
  \<open>const { modelId, stop_sequences, modelProvider, ...optsToSend } = req\<close> followed by the
  object literal \<open>{ ...optsToSend, model, user, stop }\<close>. Reading \<open>length\<close> of a
  \<open>stop_sequences\<close> that is \<open>undefined\<close> or \<open>null\<close> throws.
\<close>

definition openai_transformForRequest :: "jsobj \<Rightarrow> jsobj \<Rightarrow> js_error + jsobj" where
  "openai_transformForRequest req meta =
     (let modelId = obj_get req ''modelId'';
          stop_sequences = obj_get req ''stop_sequences'';
          optsToSend = AList.delete ''modelProvider''
                         (AList.delete ''stop_sequences'' (AList.delete ''modelId'' req));
          user_identifier = obj_get meta ''user_identifier''
      in bind_e (js_length stop_sequences) (\<lambda>len.
           Inr (AList.update ''stop'' (if truthy len then stop_sequences else JUndefined)
                 (AList.update ''user''
                    (if truthy user_identifier then user_identifier else JUndefined)
                    (AList.update ''model'' modelId optsToSend)))))"

text \<open>
  The response transform. \<open>anyRes["choices"][0]\<close> is evaluated again at each use; the
  evaluation has no effect, so it is done once here. \<open>delta.content || ""\<close> replaces every
  falsy content by the empty string.
\<close>

definition openai_transformResponse :: "jsval \<Rightarrow> js_error + jsval" where
  "openai_transformResponse res =
     bind_e (js_prop res ''choices'') (\<lambda>choices.
     bind_e (js_index0 choices) (\<lambda>choice.
     bind_e (js_in ''delta'' choice) (\<lambda>has_delta.
       if has_delta then
         bind_e (js_prop choice ''delta'') (\<lambda>delta.
         bind_e (js_prop delta ''content'') (\<lambda>content.
           Inr (if truthy content then content else JStr '''')))
       else
         bind_e (js_in ''message'' choice) (\<lambda>has_message.
           if has_message then
             bind_e (js_prop choice ''message'') (\<lambda>message.
               js_prop message ''content'')
           else js_prop choice ''text''))))"

text \<open>
  \<open>init\<close>. The class \<open>Model\<close> is declared in another module; the model of
  \<open>new Model(config, opts)\<close> is the pair of its two arguments.
\<close>

definition init :: "('cg, 'cs) init_config \<Rightarrow> 'o \<Rightarrow> ('cg, 'cs) ModelConfig \<times> 'o" where
  "init config opts =
     (let completionModelId = (if quality config = ''low'' then Curie else Davinci);
          chatModelId = (if quality config = ''low'' then GPT3_5_Turbo else GPT4)
      in (\<lparr> modelProvider = ''openai'',
            getModelId = (\<lambda>req. if truthy (obj_get req ''messages'')
                                 then OpenAIModelId_value chatModelId
                                 else OpenAIModelId_value completionModelId),
            baseUrl = ''https://api.openai.com/v1'',
            getPath = (\<lambda>req. if obj_has ''messages'' req
                              then ''/chat/completions'' else ''/completions''),
            debug = init_config.debug config,
            endOfStreamSentinel = ''[DONE]'',
            cacheGet = init_config.cacheGet config,
            cacheSet = init_config.cacheSet config,
            transformForRequest = openai_transformForRequest,
            transformResponse = openai_transformResponse \<rparr>,
          opts))"

section \<open>The configuration manager (class ConfigManager)\<close>

datatype AuthType = External | APIKey

text \<open>
  The members of the enum \<open>ModelID\<close>, as the two tables keyed by it list them. The enum is
  declared in another module, so the strings behind the members are not known here: the
  functions that start from a string take the decoding \<open>isKnownModel\<close> as a parameter,
  which yields the member a string stands for, if any. A member is a non-empty string, so
  a given model id passes the test \<open>modelId ? \<dots> : \<dots>\<close>.
\<close>

datatype ModelID = GPT3 | GPT4 | Together | Cohere

fun defaultAPILabel :: "ModelID \<Rightarrow> string" where
  "defaultAPILabel GPT3 = ''OpenAI: GPT-3.5''"
| "defaultAPILabel GPT4 = ''OpenAI: GPT-4''"
| "defaultAPILabel Together = ''Together: GPT NeoXT 20B''"
| "defaultAPILabel Cohere = ''Cohere: Xlarge''"

text \<open>
  The callers are objects of the module \<open>~core/llm\<close>; a caller is represented by the
  expression that denotes it: \<open>openrouter\<close>, \<open>local\<close> or \<open>modelAPICallers[modelId]\<close>.
\<close>

datatype caller = openrouter | local | modelAPICallers ModelID

text \<open>
  A stored configuration. The type of a session belongs to the public interface and is a
  parameter; \<open>None\<close> is an optional property that is missing.
\<close>

record 'sess Config =
  id_cfg :: string
  auth :: AuthType
  label :: string
  models :: "ModelID list"
  session :: "'sess option"
  baseUrl :: "string option"
  apiKey :: "string option"

text \<open>
  What the manager reads and writes. The base class \<open>BaseManager\<close> is declared in another
  module: \<open>store\<close> is what its \<open>get(id)\<close> finds, and \<open>authIndex auth\<close> is the list of ids
  that \<open>getIds(100, 0, authIndexName, auth)\<close> returns. \<open>modelHandlers\<close> and \<open>defaultConfig\<close>
  are the two \<open>Storage\<close> areas of the manager, the second one reduced to its only key
  \<open>"id"\<close>.
\<close>

record 'sess cm_state =
  store :: "string \<rightharpoonup> 'sess Config"
  authIndex :: "AuthType \<Rightarrow> string list"
  modelHandlers :: "ModelID \<rightharpoonup> string"
  defaultConfig :: "string option"

definition getCallerForAuth :: "AuthType \<Rightarrow> ModelID option \<Rightarrow> caller" where
  "getCallerForAuth a modelId =
     (case a of
        External \<Rightarrow> openrouter
      | APIKey \<Rightarrow> (case modelId of Some m \<Rightarrow> modelAPICallers m | None \<Rightarrow> local))"

definition getLabelForAuth :: "AuthType \<Rightarrow> ModelID option \<Rightarrow> string" where
  "getLabelForAuth a modelId =
     (case a of
        External \<Rightarrow> ''OpenRouter''
      | APIKey \<Rightarrow> (case modelId of Some m \<Rightarrow> defaultAPILabel m | None \<Rightarrow> ''Local''))"

text \<open>\<open>ConfigManager.init\<close>; \<open>uuid\<close> is the value that the call of \<open>uuidv4()\<close> returns.\<close>

definition ConfigManager_init :: "string \<Rightarrow> AuthType \<Rightarrow> ModelID option \<Rightarrow> 'sess Config" where
  "ConfigManager_init uuid a modelId =
     (case a of
        External \<Rightarrow>
          \<lparr> id_cfg = uuid, auth = a, label = getLabelForAuth a modelId,
            models = [GPT3, GPT4], session = None, baseUrl = None, apiKey = None \<rparr>
      | APIKey \<Rightarrow>
          \<lparr> id_cfg = uuid, auth = a, label = getLabelForAuth a modelId,
            models = (case modelId of Some m \<Rightarrow> [m] | None \<Rightarrow> []),
            session = None, baseUrl = None, apiKey = None \<rparr>)"

text \<open>The \<open>model\<close> argument of \<open>filter\<close>: \<open>null\<close>, left out, or a model id.\<close>

datatype model_filter = Null | Undefined | Model ModelID

definition filter_configs :: "'sess cm_state \<Rightarrow> AuthType \<Rightarrow> model_filter \<Rightarrow> 'sess Config list" where
  "filter_configs s a mf =
     (let ids = authIndex s a;
          maybeConfigs = map (store s) ids;
          configs = concat (map (\<lambda>c. case c of None \<Rightarrow> [] | Some x \<Rightarrow> [x]) maybeConfigs)
      in filter (\<lambda>c. case mf of
                        Null \<Rightarrow> models c = []
                      | Model m \<Rightarrow> m \<in> set (models c)
                      | Undefined \<Rightarrow> True) configs)"

text \<open>\<open>forAuth[0]\<close> is \<open>undefined\<close> on the empty array.\<close>

definition forAuthAndModel :: "'sess cm_state \<Rightarrow> AuthType \<Rightarrow> ModelID option \<Rightarrow> 'sess Config option" where
  "forAuthAndModel s a modelId =
     (let forAuth =
            (case modelId of
               None \<Rightarrow> (if a = APIKey then filter_configs s a Null
                         else filter_configs s a Undefined)
             | Some m \<Rightarrow> filter_configs s a (Model m))
      in case forAuth of [] \<Rightarrow> None | c # _ \<Rightarrow> Some c)"

definition getOrInit :: "string \<Rightarrow> 'sess cm_state \<Rightarrow> AuthType \<Rightarrow> ModelID option \<Rightarrow> 'sess Config" where
  "getOrInit uuid s a modelId =
     (case forAuthAndModel s a modelId of
        Some c \<Rightarrow> c
      | None \<Rightarrow> ConfigManager_init uuid a modelId)"

text \<open>
  The object literal \<open>{ ...defaults, ...config }\<close>: every property that \<open>config\<close> has
  overrides the one of \<open>defaults\<close>.
\<close>

definition spread_Config :: "'sess Config \<Rightarrow> 'sess Config \<Rightarrow> 'sess Config" where
  "spread_Config defaults c =
     \<lparr> id_cfg = id_cfg c, auth = auth c, label = label c, models = models c,
       session = (case session c of Some x \<Rightarrow> Some x | None \<Rightarrow> session defaults),
       baseUrl = (case Config.baseUrl c of Some x \<Rightarrow> Some x | None \<Rightarrow> Config.baseUrl defaults),
       apiKey = (case apiKey c of Some x \<Rightarrow> Some x | None \<Rightarrow> apiKey defaults) \<rparr>"

text \<open>
  \<open>forModel\<close> returns the configuration together with the state it leaves: a handler entry
  whose configuration is gone is removed. An id that is the empty string fails the test
  \<open>if (configId)\<close>.
\<close>

definition forModel :: "string \<Rightarrow> 'sess cm_state \<Rightarrow> ModelID \<Rightarrow> 'sess Config \<times> 'sess cm_state" where
  "forModel uuid s modelId =
     (case modelHandlers s modelId of
        None \<Rightarrow> (getOrInit uuid s APIKey (Some modelId), s)
      | Some configId \<Rightarrow>
          if configId = [] then (getOrInit uuid s APIKey (Some modelId), s)
          else
            (case store s configId of
               Some c \<Rightarrow> (spread_Config (ConfigManager_init uuid (auth c) (Some modelId)) c, s)
             | None \<Rightarrow>
                 (let s' = s\<lparr> modelHandlers := (modelHandlers s)(modelId := None) \<rparr>
                  in (getOrInit uuid s' APIKey (Some modelId), s'))))"

definition isCredentialed :: "'sess Config \<Rightarrow> bool" where
  "isCredentialed c =
     (case auth c of
        External \<Rightarrow> session c \<noteq> None
      | APIKey \<Rightarrow> (if length (models c) \<noteq> 0
                    then (case apiKey c of None \<Rightarrow> False | Some k \<Rightarrow> k \<noteq> [])
                    else True))"



definition getCurrentModel :: "'sess Config \<Rightarrow> ModelID option" where
  "getCurrentModel c =
     (if length (models c) > 1 then None
      else (case models c of [] \<Rightarrow> None | m # _ \<Rightarrow> Some m))"

definition getCaller :: "'sess Config \<Rightarrow> caller" where
  "getCaller c = getCallerForAuth (auth c) (getCurrentModel c)"


text \<open>
  The stored configurations that the index lists under an \<open>auth\<close>, in the order of the
  index: what \<open>filter\<close> has in \<open>configs\<close> before it looks at the models.
\<close>

definition indexed_configs :: "'sess cm_state \<Rightarrow> AuthType \<Rightarrow> 'sess Config list" where
  "indexed_configs s a = List.map_filter (store s) (authIndex s a)"

section \<open>The transaction manager (class TransactionManager)\<close>

text \<open>\<open>typeof v\<close>; \<open>null\<close> and arrays are of type \<open>"object"\<close>.\<close>

fun js_typeof :: "jsval \<Rightarrow> string" where
  "js_typeof JUndefined = ''undefined''"
| "js_typeof JNull = ''object''"
| "js_typeof (JBool b) = ''boolean''"
| "js_typeof (JNum n) = ''number''"
| "js_typeof (JStr s) = ''string''"
| "js_typeof (JArr xs) = ''object''"
| "js_typeof (JObj kvs) = ''object''"

text \<open>
  \<open>_validateInput\<close>. The two tests \<open>isPromptInput\<close> and \<open>isMessagesInput\<close> are imported from
  the package \<open>window.ai\<close> and are parameters here; a test may throw. The operators \<open>||\<close>
  and \<open>&&\<close> evaluate their right operand only when the left one does not decide.
\<close>

definition validateInput ::
  "(jsval \<Rightarrow> js_error + bool) \<Rightarrow> (jsval \<Rightarrow> js_error + bool) \<Rightarrow> jsval \<Rightarrow> js_error + unit" where
  "validateInput is_prompt is_messages inp =
     (if js_typeof inp \<noteq> ''object'' then Inl (Error ''Invalid input'')
      else
        bind_e (is_prompt inp) (\<lambda>p.
          if \<not> p then
            bind_e (is_messages inp) (\<lambda>m.
              if \<not> m then Inl (Error ''Invalid input'') else Inr ())
          else Inr ()))"

text \<open>
  Modelled from the spec: \<open>isPromptInput\<close> and \<open>isMessagesInput\<close> are exported by the package
  \<open>window.ai\<close>, which is not among the sources. The spec names the two forms of an input, a
  single prompt string or a sequence of role-tagged messages; an input carries a form when
  it has the property of that form, which is the test \<open>"prompt" in txn.input\<close> that
  \<open>formatInput\<close> of this class makes.
\<close>

definition isPromptInput :: "jsval \<Rightarrow> js_error + bool" where
  "isPromptInput inp = js_in ''prompt'' inp"

definition isMessagesInput :: "jsval \<Rightarrow> js_error + bool" where
  "isMessagesInput inp = js_in ''messages'' inp"

text \<open>The options of a request; every property is optional.\<close>

record CompletionOptions =
  model :: "string option"
  numOutputs :: "rat option"
  temperature :: "rat option"
  maxTokens :: "rat option"
  stopSequences :: "string list option"
  mimeType :: "string option"
  numInferenceSteps :: "rat option"

text \<open>
  A transaction. The interface declares \<open>numOutputs\<close> as a number, but a record stored by an
  older version has none, so the property is optional here. The type of the origin data
  is a parameter.
\<close>

record 'origin Transaction =
  id_txn :: string
  timestamp :: int
  origin :: 'origin
  input :: jsval
  numOutputs :: "rat option"
  temperature :: "rat option"
  maxTokens :: "rat option"
  stopSequences :: "string list option"
  model :: "string option"
  routedModel :: "string option"
  numInferenceSteps :: "rat option"
  mimeType :: "string option"
  outputs :: "jsval list option"
  error :: "string option"

text \<open>
  \<open>TransactionManager.init\<close>; \<open>uuid\<close> and \<open>now\<close> are the values that \<open>uuidv4()\<close> and
  \<open>Date.now()\<close> return, the two tests are those of \<open>_validateInput\<close>. The default of
  the destructuring, \<open>numOutputs = 1\<close>, applies when the property is \<open>undefined\<close>; any
  number given is taken as it is.
\<close>

definition TransactionManager_init ::
  "(jsval \<Rightarrow> js_error + bool) \<Rightarrow> (jsval \<Rightarrow> js_error + bool) \<Rightarrow>
   string \<Rightarrow> int \<Rightarrow> jsval \<Rightarrow> 'origin \<Rightarrow> CompletionOptions \<Rightarrow> js_error + 'origin Transaction" where
  "TransactionManager_init is_prompt is_messages uuid now inp orig opts =
     bind_e (validateInput is_prompt is_messages inp) (\<lambda>_.
       Inr \<lparr> id_txn = uuid,
             timestamp = now,
             origin = orig,
             input = inp,
             numOutputs = (case CompletionOptions.numOutputs opts of
                             None \<Rightarrow> Some 1 | Some n \<Rightarrow> Some n),
             temperature = CompletionOptions.temperature opts,
             maxTokens = CompletionOptions.maxTokens opts,
             stopSequences = CompletionOptions.stopSequences opts,
             model = CompletionOptions.model opts,
             routedModel = None,
             numInferenceSteps = CompletionOptions.numInferenceSteps opts,
             mimeType = CompletionOptions.mimeType opts,
             outputs = None,
             error = None \<rparr>)"

text \<open>
  One step of \<open>_batchFetch\<close>: \<open>txns\<close> is what \<open>this.store.get\<close> finds. An id that is not
  stored gives \<open>undefined\<close>, and reading \<open>raw.numOutputs\<close> then throws.
\<close>

definition fetch_raw :: "(string \<rightharpoonup> 'origin Transaction) \<Rightarrow> string \<Rightarrow> js_error + 'origin Transaction" where
  "fetch_raw txns i =
     (case txns i of
        None \<Rightarrow> Inl TypeError
      | Some raw \<Rightarrow> Inr (if numOutputs raw = None then raw\<lparr> numOutputs := Some 1 \<rparr> else raw))"

text \<open>\<open>Promise.all\<close> over the ids: the results in the order of the ids, or the rejection.\<close>

fun batchFetch :: "(string \<rightharpoonup> 'origin Transaction) \<Rightarrow> string list \<Rightarrow> js_error + 'origin Transaction list" where
  "batchFetch txns [] = Inr []"
| "batchFetch txns (i # ids) =
     bind_e (fetch_raw txns i) (\<lambda>t.
       bind_e (batchFetch txns ids) (\<lambda>ts. Inr (t # ts)))"

text \<open>A positive integer among the numbers.\<close>

definition positive_integer :: "rat \<Rightarrow> bool" where
  "positive_integer n = (0 < n \<and> n \<in> \<int>)"


text \<open>Two fixtures for concrete evaluations: an installation with nothing stored, and the
  options object \<open>{}\<close>.\<close>

definition no_configs :: "unit cm_state" where
  "no_configs = \<lparr> store = Map.empty, authIndex = (\<lambda>a. []), modelHandlers = Map.empty,
                   defaultConfig = None \<rparr>"

definition no_options :: CompletionOptions where
  "no_options = \<lparr> CompletionOptions.model = None, CompletionOptions.numOutputs = None,
                   CompletionOptions.temperature = None, CompletionOptions.maxTokens = None,
                   CompletionOptions.stopSequences = None, CompletionOptions.mimeType = None,
                   CompletionOptions.numInferenceSteps = None \<rparr>"

section \<open>Properties of the OpenAI descriptor\<close>

lemma bind_e_simps [simp]:
  "bind_e (Inl e) f = Inl e"
  "bind_e (Inr x) f = f x"
  by (simp_all add: bind_e_def)

text \<open>
  Where the two selectors agree. \<open>getModelId\<close> tests the value of \<open>messages\<close> and \<open>getPath\<close>
  the presence of the property. On a request whose \<open>messages\<close>, when it has the
  property, is an array, \<open>getModelId\<close> chooses a chat model exactly when the request has
  messages, with the tier that the quality chooses (\<open>"low"\<close> gives \<open>gpt-3.5-turbo\<close> or
  \<open>text-curie-001\<close>, any other quality \<open>gpt-4\<close> or \<open>text-davinci-003\<close>), and \<open>getPath\<close> is
  \<open>/chat/completions\<close> in exactly that case.
\<close>

theorem openai_model_selection:
  assumes "map_of req ''messages'' = None \<or> (\<exists>ms. map_of req ''messages'' = Some (JArr ms))"
  shows "getModelId (fst (init config opts)) req =
           (if obj_has ''messages'' req
            then (if quality config = ''low'' then ''gpt-3.5-turbo'' else ''gpt-4'')
            else (if quality config = ''low'' then ''text-curie-001'' else ''text-davinci-003''))
         \<and> getPath (fst (init config opts)) req =
           (if obj_has ''messages'' req then ''/chat/completions'' else ''/completions'')"
  using assms by (auto simp: init_def Let_def obj_has_def obj_get_def)

theorem openai_model_selection_witness:
  "getModelId (fst (init \<lparr>quality = ''low'', debug = None, cacheGet = (None :: unit option),
                          cacheSet = (None :: unit option)\<rparr> ()))
       [(''messages'', JArr []), (''temperature'', JNum 1)] = ''gpt-3.5-turbo''
   \<and> getPath (fst (init \<lparr>quality = ''low'', debug = None, cacheGet = (None :: unit option),
                          cacheSet = (None :: unit option)\<rparr> ()))
       [(''messages'', JArr []), (''temperature'', JNum 1)] = ''/chat/completions''
   \<and> getModelId (fst (init \<lparr>quality = ''max'', debug = None, cacheGet = (None :: unit option),
                          cacheSet = (None :: unit option)\<rparr> ()))
       [(''prompt'', JStr ''Hello'')] = ''text-davinci-003''
   \<and> getPath (fst (init \<lparr>quality = ''max'', debug = None, cacheGet = (None :: unit option),
                          cacheSet = (None :: unit option)\<rparr> ()))
       [(''prompt'', JStr ''Hello'')] = ''/completions''"
  using openai_model_selection [of "[(''messages'', JArr []), (''temperature'', JNum 1)]"
          "\<lparr>quality = ''low'', debug = None, cacheGet = (None :: unit option),
            cacheSet = (None :: unit option)\<rparr>" "()"]
        openai_model_selection [of "[(''prompt'', JStr ''Hello'')]"
          "\<lparr>quality = ''max'', debug = None, cacheGet = (None :: unit option),
            cacheSet = (None :: unit option)\<rparr>" "()"]
  by (simp add: obj_has_def)

text \<open>
  C1. \<open>getModelId\<close> of the OpenAI descriptor is to choose a chat model for a request with a
  message array and a completion model otherwise, in the tier of the quality, and
  \<open>getPath\<close> is to agree with it: \<open>/chat/completions\<close> exactly when the request has
  messages. The code does not make the two agree on every request. A request that has
  the property \<open>messages\<close> with the value \<open>undefined\<close>, next to its prompt, has no message
  array: \<open>getModelId\<close> returns the completion model \<open>text-curie-001\<close>, but \<open>getPath\<close>, which
  looks for the property and not for its value, returns \<open>/chat/completions\<close>.
\<close>

theorem openai_getPath_disagrees:
  "getModelId (fst (init \<lparr>quality = ''low'', debug = None, cacheGet = (None :: unit option),
                          cacheSet = (None :: unit option)\<rparr> ()))
       [(''prompt'', JStr ''Hello''), (''messages'', JUndefined)] = ''text-curie-001''
   \<and> getPath (fst (init \<lparr>quality = ''low'', debug = None, cacheGet = (None :: unit option),
                          cacheSet = (None :: unit option)\<rparr> ()))
       [(''prompt'', JStr ''Hello''), (''messages'', JUndefined)] = ''/chat/completions''"
  by (simp add: init_def obj_has_def obj_get_def)

text \<open>
  C2. \<open>transformResponse\<close> decides by the properties of \<open>choices[0]\<close>, in this order: with a
  \<open>delta\<close> it returns the content of the delta, and the empty string when that content is
  missing or empty (or any other falsy value); without a \<open>delta\<close> but with a \<open>message\<close> it
  returns the content of the message; with neither it returns the \<open>text\<close> of \<open>choices[0]\<close>.
  The event is one whose \<open>choices[0]\<close> is an object \<open>c\<close>; reading the content of a \<open>delta\<close>
  or \<open>message\<close> that is \<open>null\<close> or \<open>undefined\<close> throws, which \<open>js_prop\<close> records.
\<close>

theorem transformResponse_priority:
  assumes "js_prop res ''choices'' = Inr choices" and "js_index0 choices = Inr (JObj c)"
  shows "(obj_has ''delta'' c \<longrightarrow>
            transformResponse (fst (init config opts)) res =
              bind_e (js_prop (obj_get c ''delta'') ''content'')
                (\<lambda>content. Inr (if truthy content then content else JStr [])))
       \<and> (\<not> obj_has ''delta'' c \<and> obj_has ''message'' c \<longrightarrow>
            transformResponse (fst (init config opts)) res =
              js_prop (obj_get c ''message'') ''content'')
       \<and> (\<not> obj_has ''delta'' c \<and> \<not> obj_has ''message'' c \<longrightarrow>
            transformResponse (fst (init config opts)) res = Inr (obj_get c ''text''))"
  using assms by (simp add: init_def openai_transformResponse_def)

theorem transformResponse_priority_witness:
  "transformResponse (fst (init \<lparr>quality = ''low'', debug = None, cacheGet = (None :: unit option),
                                 cacheSet = (None :: unit option)\<rparr> ()))
     (JObj [(''choices'', JArr [JObj [(''message'', JObj [(''content'', JStr ''full'')]),
                                      (''delta'', JObj [(''content'', JStr ''Hi'')])]])])
     = Inr (JStr ''Hi'')
   \<and> transformResponse (fst (init \<lparr>quality = ''low'', debug = None, cacheGet = (None :: unit option),
                                 cacheSet = (None :: unit option)\<rparr> ()))
     (JObj [(''choices'', JArr [JObj [(''delta'', JObj [(''role'', JStr ''assistant'')])]])])
     = Inr (JStr [])
   \<and> transformResponse (fst (init \<lparr>quality = ''low'', debug = None, cacheGet = (None :: unit option),
                                 cacheSet = (None :: unit option)\<rparr> ()))
     (JObj [(''choices'', JArr [JObj [(''text'', JStr ''plain''),
                                      (''message'', JObj [(''content'', JStr ''full'')])]])])
     = Inr (JStr ''full'')
   \<and> transformResponse (fst (init \<lparr>quality = ''low'', debug = None, cacheGet = (None :: unit option),
                                 cacheSet = (None :: unit option)\<rparr> ()))
     (JObj [(''choices'', JArr [JObj [(''text'', JStr ''plain'')]])])
     = Inr (JStr ''plain'')"
  using transformResponse_priority
          [of "JObj [(''choices'', JArr [JObj [(''message'', JObj [(''content'', JStr ''full'')]),
                                              (''delta'', JObj [(''content'', JStr ''Hi'')])]])]"
              "JArr [JObj [(''message'', JObj [(''content'', JStr ''full'')]),
                           (''delta'', JObj [(''content'', JStr ''Hi'')])]]"
              "[(''message'', JObj [(''content'', JStr ''full'')]),
                (''delta'', JObj [(''content'', JStr ''Hi'')])]"
              "\<lparr>quality = ''low'', debug = None, cacheGet = (None :: unit option),
                cacheSet = (None :: unit option)\<rparr>" "()"]
        transformResponse_priority
          [of "JObj [(''choices'', JArr [JObj [(''delta'', JObj [(''role'', JStr ''assistant'')])]])]"
              "JArr [JObj [(''delta'', JObj [(''role'', JStr ''assistant'')])]]"
              "[(''delta'', JObj [(''role'', JStr ''assistant'')])]"
              "\<lparr>quality = ''low'', debug = None, cacheGet = (None :: unit option),
                cacheSet = (None :: unit option)\<rparr>" "()"]
        transformResponse_priority
          [of "JObj [(''choices'', JArr [JObj [(''text'', JStr ''plain''),
                                              (''message'', JObj [(''content'', JStr ''full'')])]])]"
              "JArr [JObj [(''text'', JStr ''plain''),
                           (''message'', JObj [(''content'', JStr ''full'')])]]"
              "[(''text'', JStr ''plain''), (''message'', JObj [(''content'', JStr ''full'')])]"
              "\<lparr>quality = ''low'', debug = None, cacheGet = (None :: unit option),
                cacheSet = (None :: unit option)\<rparr>" "()"]
        transformResponse_priority
          [of "JObj [(''choices'', JArr [JObj [(''text'', JStr ''plain'')]])]"
              "JArr [JObj [(''text'', JStr ''plain'')]]"
              "[(''text'', JStr ''plain'')]"
              "\<lparr>quality = ''low'', debug = None, cacheGet = (None :: unit option),
                cacheSet = (None :: unit option)\<rparr>" "()"]
  by (simp add: obj_has_def obj_get_def)

text \<open>
  C3. In the payload that \<open>transformForRequest\<close> of the OpenAI descriptor builds, \<open>stop\<close> is
  \<open>undefined\<close> when the \<open>stop_sequences\<close> of the request is the empty array, and is
  \<open>stop_sequences\<close> itself when it is not empty. The request is one of the request type:
  its \<open>stop_sequences\<close> is an array; the transform then returns a payload.
\<close>

theorem transformForRequest_stop:
  assumes "map_of req ''stop_sequences'' = Some (JArr xs)"
  shows "\<exists>payload. transformForRequest (fst (init config opts)) req meta = Inr payload \<and>
           obj_get payload ''stop'' = (if xs = [] then JUndefined else JArr xs)"
  using assms
  by (simp add: init_def openai_transformForRequest_def Let_def obj_get_def update_conv')

theorem transformForRequest_stop_witness:
  "(\<exists>payload.
      transformForRequest (fst (init \<lparr>quality = ''low'', debug = None,
          cacheGet = (None :: unit option), cacheSet = (None :: unit option)\<rparr> ()))
        [(''modelId'', JStr ''gpt-4''), (''stop_sequences'', JArr []),
         (''modelProvider'', JStr ''openai''), (''prompt'', JStr ''Hello'')]
        [(''user_identifier'', JStr ''u1'')] = Inr payload
      \<and> obj_get payload ''stop'' = JUndefined)
   \<and> (\<exists>payload.
      transformForRequest (fst (init \<lparr>quality = ''low'', debug = None,
          cacheGet = (None :: unit option), cacheSet = (None :: unit option)\<rparr> ()))
        [(''modelId'', JStr ''gpt-4''), (''stop_sequences'', JArr [JStr ''END'']),
         (''modelProvider'', JStr ''openai''), (''prompt'', JStr ''Hello'')]
        [(''user_identifier'', JStr ''u1'')] = Inr payload
      \<and> obj_get payload ''stop'' = JArr [JStr ''END''])"
  using transformForRequest_stop
          [of "[(''modelId'', JStr ''gpt-4''), (''stop_sequences'', JArr []),
                (''modelProvider'', JStr ''openai''), (''prompt'', JStr ''Hello'')]"
              "[]"
              "\<lparr>quality = ''low'', debug = None, cacheGet = (None :: unit option),
                cacheSet = (None :: unit option)\<rparr>" "()" "[(''user_identifier'', JStr ''u1'')]"]
        transformForRequest_stop
          [of "[(''modelId'', JStr ''gpt-4''), (''stop_sequences'', JArr [JStr ''END'']),
                (''modelProvider'', JStr ''openai''), (''prompt'', JStr ''Hello'')]"
              "[JStr ''END'']"
              "\<lparr>quality = ''low'', debug = None, cacheGet = (None :: unit option),
                cacheSet = (None :: unit option)\<rparr>" "()" "[(''user_identifier'', JStr ''u1'')]"]
  by simp

text \<open>
  C4. The payload that \<open>transformForRequest\<close> of the OpenAI descriptor builds has no
  \<open>modelId\<close> and no \<open>modelProvider\<close> (and no \<open>stop_sequences\<close>); its \<open>model\<close> is the
  \<open>modelId\<close> of the request; every other property of the request, apart from the three
  that the transform writes itself (\<open>model\<close>, \<open>user\<close>, \<open>stop\<close>), is in the payload as it is
  in the request; and \<open>user\<close> is the \<open>user_identifier\<close> of the meta data when that is not
  empty, \<open>undefined\<close> otherwise. The request is one of the request type, as for C3.
\<close>

theorem transformForRequest_fields:
  assumes "map_of req ''stop_sequences'' = Some (JArr xs)"
  shows "\<exists>payload. transformForRequest (fst (init config opts)) req meta = Inr payload \<and>
           \<not> obj_has ''modelId'' payload \<and> \<not> obj_has ''modelProvider'' payload \<and>
           \<not> obj_has ''stop_sequences'' payload \<and>
           map_of payload ''model'' = Some (obj_get req ''modelId'') \<and>
           (\<forall>k. k \<notin> {''modelId'', ''stop_sequences'', ''modelProvider'',
                       ''model'', ''user'', ''stop''}
                \<longrightarrow> map_of payload k = map_of req k) \<and>
           map_of payload ''user'' =
             Some (if truthy (obj_get meta ''user_identifier'')
                   then obj_get meta ''user_identifier'' else JUndefined)"
  using assms
  by (simp add: init_def openai_transformForRequest_def Let_def obj_get_def obj_has_def
                update_conv' delete_conv')

theorem transformForRequest_fields_witness:
  "transformForRequest (fst (init \<lparr>quality = ''low'', debug = None,
        cacheGet = (None :: unit option), cacheSet = (None :: unit option)\<rparr> ()))
     [(''modelId'', JStr ''gpt-4''), (''stop_sequences'', JArr []),
      (''modelProvider'', JStr ''openai''), (''prompt'', JStr ''Hello''),
      (''temperature'', JNum (1 / 2))]
     [(''user_identifier'', JStr '''')]
   = Inr [(''prompt'', JStr ''Hello''), (''temperature'', JNum (1 / 2)),
          (''model'', JStr ''gpt-4''), (''user'', JUndefined), (''stop'', JUndefined)]"
  using transformForRequest_fields
          [of "[(''modelId'', JStr ''gpt-4''), (''stop_sequences'', JArr []),
                (''modelProvider'', JStr ''openai''), (''prompt'', JStr ''Hello''),
                (''temperature'', JNum (1 / 2))]"
              "[]"
              "\<lparr>quality = ''low'', debug = None, cacheGet = (None :: unit option),
                cacheSet = (None :: unit option)\<rparr>" "()" "[(''user_identifier'', JStr '''')]"]
  by (simp add: init_def openai_transformForRequest_def Let_def obj_get_def AList.delete_eq)

section \<open>Properties of the configuration manager\<close>

lemma spread_Config_fields:
  "auth (spread_Config d c) = auth c" "models (spread_Config d c) = models c"
  by (simp_all add: spread_Config_def)

lemma getOrInit_caller:
  "getCaller (getOrInit u1 s a m :: 'a Config) = getCaller (getOrInit u2 s a m :: 'a Config)"
  "getCurrentModel (getOrInit u1 s a m :: 'a Config) =
     getCurrentModel (getOrInit u2 s a m :: 'a Config)"
  by (auto simp: getOrInit_def getCaller_def getCurrentModel_def ConfigManager_init_def
           split: option.splits AuthType.splits)

text \<open>The lookups read the store and the index only.\<close>

lemma filter_configs_reads:
  "store s' = store s \<Longrightarrow> authIndex s' = authIndex s \<Longrightarrow>
     filter_configs s' a mf = filter_configs s a mf"
  by (simp add: filter_configs_def)

lemma getOrInit_reads:
  assumes same: "store s' = store s" "authIndex s' = authIndex s"
  shows "getOrInit u s' a m = getOrInit u s a m"
proof -
  have f: "filter_configs s' a mf = filter_configs s a mf" for mf
    by (rule filter_configs_reads [OF same])
  have "forAuthAndModel s' a m = forAuthAndModel s a m"
    unfolding forAuthAndModel_def by (simp only: f)
  then show ?thesis
    unfolding getOrInit_def by (simp only:)
qed


text \<open>The two ways through \<open>forModel\<close>: a handler that resolves, and everything else.\<close>

lemma forModel_hit:
  "modelHandlers s m = Some cid \<Longrightarrow> cid \<noteq> [] \<Longrightarrow> store s cid = Some cfg \<Longrightarrow>
   forModel u s m = (spread_Config (ConfigManager_init u (auth cfg) (Some m)) cfg, s)"
  by (simp add: forModel_def)

lemma forModel_miss:
  assumes "\<not> (\<exists>cid cfg. modelHandlers s m = Some cid \<and> cid \<noteq> [] \<and> store s cid = Some cfg)"
  shows "\<exists>s'. forModel u s m = (getOrInit u s APIKey (Some m), s') \<and> store s' = store s \<and>
              authIndex s' = authIndex s \<and>
              \<not> (\<exists>cid cfg. modelHandlers s' m = Some cid \<and> cid \<noteq> [] \<and> store s' cid = Some cfg)"
proof (cases "modelHandlers s m")
  case None
  then show ?thesis by (simp add: forModel_def)
next
  case (Some cid)
  show ?thesis
  proof (cases "cid = []")
    case True
    with Some show ?thesis by (simp add: forModel_def)
  next
    case False
    with Some assms have gone: "store s cid = None" by (cases "store s cid") auto
    have g: "getOrInit u (s\<lparr>modelHandlers := (modelHandlers s)(m := None)\<rparr>) APIKey (Some m)
               = getOrInit u s APIKey (Some m)"
      by (rule getOrInit_reads) simp_all
    from Some False gone show ?thesis
      by (simp add: forModel_def Let_def g)
  qed
qed













lemma indexed_configs_reads:
  "store s' = store s \<Longrightarrow> authIndex s' = authIndex s \<Longrightarrow>
     indexed_configs s' a = indexed_configs s a"
  by (simp add: indexed_configs_def)




text \<open>
  C5. Resolving twice gives the same result. Two calls of the OpenAI \<open>init\<close> with the same
  quality (whatever their other arguments) give descriptors whose \<open>getModelId\<close> returns the
  same model string on the same request, with the same path and provider. Two calls of
  \<open>forModel\<close> with the same model id, the second in the state the first has left, give
  configurations with the same caller and the same current model. (The two
  configurations may differ in their \<open>id\<close>: one that \<open>init\<close> creates gets a new uuid.)
\<close>

theorem resolve_twice_same:
  "(quality ca = quality cb \<longrightarrow>
      getModelId (fst (init ca oa)) req = getModelId (fst (init cb ob)) req
      \<and> getPath (fst (init ca oa)) req = getPath (fst (init cb ob)) req
      \<and> modelProvider (fst (init ca oa)) = modelProvider (fst (init cb ob)))
   \<and> (forModel ua s m = (cfga, sa) \<and> forModel ub sa m = (cfgb, sb) \<longrightarrow>
        getCaller cfga = getCaller cfgb \<and> getCurrentModel cfga = getCurrentModel cfgb)"
proof (intro conjI impI)
  assume "quality ca = quality cb"
  then show "getModelId (fst (init ca oa)) req = getModelId (fst (init cb ob)) req"
    by (simp add: init_def)
next
  show "getPath (fst (init ca oa)) req = getPath (fst (init cb ob)) req"
    by (simp add: init_def)
next
  show "modelProvider (fst (init ca oa)) = modelProvider (fst (init cb ob))"
    by (simp add: init_def)
next
  assume h: "forModel ua s m = (cfga, sa) \<and> forModel ub sa m = (cfgb, sb)"
  have both: "getCaller cfga = getCaller cfgb \<and> getCurrentModel cfga = getCurrentModel cfgb"
  proof (cases "\<exists>cid cfg. modelHandlers s m = Some cid \<and> cid \<noteq> [] \<and> store s cid = Some cfg")
    case True
    then obtain cid cfg
      where hit: "modelHandlers s m = Some cid" "cid \<noteq> []" "store s cid = Some cfg"
      by blast
    from forModel_hit [OF hit, of ua] h
    have 1: "cfga = spread_Config (ConfigManager_init ua (auth cfg) (Some m)) cfg" and "sa = s"
      by simp_all
    with forModel_hit [OF hit, of ub] h
    have 2: "cfgb = spread_Config (ConfigManager_init ub (auth cfg) (Some m)) cfg" by simp
    show ?thesis
      by (simp add: 1 2 getCaller_def getCurrentModel_def spread_Config_fields)
  next
    case False
    from forModel_miss [OF False, of ua] h
    have 1: "cfga = getOrInit ua s APIKey (Some m)"
      and r: "store sa = store s" "authIndex sa = authIndex s"
      and miss: "\<not> (\<exists>cid cfg. modelHandlers sa m = Some cid \<and> cid \<noteq> [] \<and> store sa cid = Some cfg)"
      by auto
    from forModel_miss [OF miss, of ub] h
    have "cfgb = getOrInit ub sa APIKey (Some m)" by auto
    then have 2: "cfgb = getOrInit ub s APIKey (Some m)"
      by (simp add: getOrInit_reads [OF r])
    show ?thesis
      unfolding 1 2 using getOrInit_caller [of ua s APIKey "Some m" ub] by simp
  qed
  from both show "getCaller cfga = getCaller cfgb" ..
  from both show "getCurrentModel cfga = getCurrentModel cfgb" ..
qed

theorem resolve_twice_same_witness:
  "getModelId (fst (init \<lparr>quality = ''low'', debug = Some True, cacheGet = (None :: unit option),
                          cacheSet = (None :: unit option)\<rparr> ()))
       [(''messages'', JArr [])]
     = getModelId (fst (init \<lparr>quality = ''low'', debug = None, cacheGet = (None :: unit option),
                          cacheSet = (None :: unit option)\<rparr> ()))
       [(''messages'', JArr [])]
   \<and> snd (forModel ''u1'' (no_configs\<lparr>modelHandlers := [GPT3 \<mapsto> ''gone'']\<rparr>) GPT3) = no_configs
   \<and> getCaller (fst (forModel ''u1'' (no_configs\<lparr>modelHandlers := [GPT3 \<mapsto> ''gone'']\<rparr>) GPT3))
     = getCaller (fst (forModel ''u2'' no_configs GPT3))
   \<and> getCurrentModel (fst (forModel ''u1'' (no_configs\<lparr>modelHandlers := [GPT3 \<mapsto> ''gone'']\<rparr>) GPT3))
     = getCurrentModel (fst (forModel ''u2'' no_configs GPT3))"
proof -
  have a: "forModel ''u1'' (no_configs\<lparr>modelHandlers := [GPT3 \<mapsto> ''gone'']\<rparr>) GPT3
             = (ConfigManager_init ''u1'' APIKey (Some GPT3), no_configs)"
    by (simp add: forModel_def no_configs_def getOrInit_def forAuthAndModel_def
                  filter_configs_def Let_def)
  have b: "forModel ''u2'' no_configs GPT3 = (ConfigManager_init ''u2'' APIKey (Some GPT3), no_configs)"
    by (simp add: forModel_def no_configs_def getOrInit_def forAuthAndModel_def
                  filter_configs_def Let_def)
  show ?thesis
    using resolve_twice_same
            [of "\<lparr>quality = ''low'', debug = Some True, cacheGet = (None :: unit option),
                   cacheSet = (None :: unit option)\<rparr>"
                "\<lparr>quality = ''low'', debug = None, cacheGet = (None :: unit option),
                   cacheSet = (None :: unit option)\<rparr>"
                "()" "[(''messages'', JArr [])]" "()"
                "''u1''" "no_configs\<lparr>modelHandlers := [GPT3 \<mapsto> ''gone'']\<rparr>" GPT3
                "ConfigManager_init ''u1'' APIKey (Some GPT3)" no_configs
                "''u2''" "ConfigManager_init ''u2'' APIKey (Some GPT3)" no_configs]
          a b
    by simp
qed


















text \<open>
  C10. \<open>isCredentialed\<close> holds for a configuration of external authentication exactly when
  it has a session; for one of API-key authentication with models exactly when it has an
  API key (the property is there and is not the empty string, which \<open>!!\<close> takes for
  missing); and always for one of API-key authentication without models.
\<close>

theorem isCredentialed_cases:
  "(auth c = External \<longrightarrow> isCredentialed c = (session c \<noteq> None))
   \<and> (auth c = APIKey \<and> models c \<noteq> [] \<longrightarrow>
        isCredentialed c = (\<exists>k. apiKey c = Some k \<and> k \<noteq> []))
   \<and> (auth c = APIKey \<and> models c = [] \<longrightarrow> isCredentialed c)"
  by (auto simp: isCredentialed_def split: option.splits)

theorem isCredentialed_cases_witness:
  "\<not> isCredentialed (ConfigManager_init ''c1'' External None :: unit Config)
   \<and> isCredentialed ((ConfigManager_init ''c1'' External None :: unit Config)\<lparr>session := Some ()\<rparr>)
   \<and> \<not> isCredentialed (ConfigManager_init ''c2'' APIKey (Some GPT4) :: unit Config)
   \<and> isCredentialed ((ConfigManager_init ''c2'' APIKey (Some GPT4) :: unit Config)
                        \<lparr>apiKey := Some ''sk-1''\<rparr>)
   \<and> isCredentialed (ConfigManager_init ''c3'' APIKey None :: unit Config)"
  using isCredentialed_cases [of "ConfigManager_init ''c1'' External None :: unit Config"]
        isCredentialed_cases
          [of "(ConfigManager_init ''c1'' External None :: unit Config)\<lparr>session := Some ()\<rparr>"]
        isCredentialed_cases [of "ConfigManager_init ''c2'' APIKey (Some GPT4) :: unit Config"]
        isCredentialed_cases
          [of "(ConfigManager_init ''c2'' APIKey (Some GPT4) :: unit Config)\<lparr>apiKey := Some ''sk-1''\<rparr>"]
        isCredentialed_cases [of "ConfigManager_init ''c3'' APIKey None :: unit Config"]
  by (simp add: ConfigManager_init_def)

section \<open>Properties of the transaction manager\<close>

text \<open>
  C8, as the code has it. \<open>TransactionManager.init\<close> raises \<open>Error("Invalid input")\<close> when
  the input is not of type \<open>"object"\<close>, and when it is and both tests, \<open>isPromptInput\<close> and
  \<open>isMessagesInput\<close>, answer no; it returns a transaction as soon as one test answers yes,
  and \<open>isMessagesInput\<close> is not even asked when \<open>isPromptInput\<close> has said yes. So an input
  that carries one form is accepted, and so is one that carries both. This holds for
  every pair of tests.
\<close>

theorem validateInput_cases:
  "(js_typeof inp \<noteq> ''object'' \<longrightarrow>
      TransactionManager_init isP isM u now inp orig opts = Inl (Error ''Invalid input''))
   \<and> (js_typeof inp = ''object'' \<and> isP inp = Inr True \<longrightarrow>
        (\<exists>t. TransactionManager_init isP isM u now inp orig opts = Inr t))
   \<and> (js_typeof inp = ''object'' \<and> isP inp = Inr False \<and> isM inp = Inr True \<longrightarrow>
        (\<exists>t. TransactionManager_init isP isM u now inp orig opts = Inr t))
   \<and> (js_typeof inp = ''object'' \<and> isP inp = Inr False \<and> isM inp = Inr False \<longrightarrow>
        TransactionManager_init isP isM u now inp orig opts = Inl (Error ''Invalid input''))"
  by (simp add: TransactionManager_init_def validateInput_def)

theorem validateInput_cases_witness:
  "TransactionManager_init isPromptInput isMessagesInput ''t1'' 1 (JStr ''Hello'') () no_options
     = Inl (Error ''Invalid input'')
   \<and> (\<exists>t. TransactionManager_init isPromptInput isMessagesInput ''t1'' 1
             (JObj [(''prompt'', JStr ''Hello'')]) () no_options = Inr t)
   \<and> (\<exists>t. TransactionManager_init isPromptInput isMessagesInput ''t1'' 1
             (JObj [(''messages'', JArr [JObj [(''role'', JStr ''user''),
                                               (''content'', JStr ''Hi'')]])]) () no_options
           = Inr t)
   \<and> TransactionManager_init isPromptInput isMessagesInput ''t1'' 1 (JObj []) () no_options
     = Inl (Error ''Invalid input'')"
  using validateInput_cases
          [where inp = "JStr ''Hello''" and isP = isPromptInput and isM = isMessagesInput
             and u = "''t1''" and now = 1 and orig = "()" and opts = no_options]
        validateInput_cases
          [where inp = "JObj [(''prompt'', JStr ''Hello'')]"
             and isP = isPromptInput and isM = isMessagesInput
             and u = "''t1''" and now = 1 and orig = "()" and opts = no_options]
        validateInput_cases
          [where inp = "JObj [(''messages'', JArr [JObj [(''role'', JStr ''user''),
                                                          (''content'', JStr ''Hi'')]])]"
             and isP = isPromptInput and isM = isMessagesInput
             and u = "''t1''" and now = 1 and orig = "()" and opts = no_options]
        validateInput_cases
          [where inp = "JObj []" and isP = isPromptInput and isM = isMessagesInput
             and u = "''t1''" and now = 1 and orig = "()" and opts = no_options]
  by (simp add: isPromptInput_def isMessagesInput_def obj_has_def)

text \<open>
  C8 as it is stated fails at an input that carries both forms at once: both tests answer
  yes, and the input is accepted.
\<close>

theorem validateInput_both_counterexample:
  "isPromptInput (JObj [(''prompt'', JStr ''Hello''),
                        (''messages'', JArr [JObj [(''role'', JStr ''user''),
                                                   (''content'', JStr ''Hi'')]])]) = Inr True
   \<and> isMessagesInput (JObj [(''prompt'', JStr ''Hello''),
                        (''messages'', JArr [JObj [(''role'', JStr ''user''),
                                                   (''content'', JStr ''Hi'')]])]) = Inr True
   \<and> validateInput isPromptInput isMessagesInput
        (JObj [(''prompt'', JStr ''Hello''),
               (''messages'', JArr [JObj [(''role'', JStr ''user''),
                                          (''content'', JStr ''Hi'')]])]) = Inr ()
   \<and> TransactionManager_init isPromptInput isMessagesInput ''t1'' 1
        (JObj [(''prompt'', JStr ''Hello''),
               (''messages'', JArr [JObj [(''role'', JStr ''user''),
                                          (''content'', JStr ''Hi'')]])]) () no_options
      \<noteq> Inl (Error ''Invalid input'')"
  by (simp add: TransactionManager_init_def validateInput_def isPromptInput_def
                isMessagesInput_def obj_has_def)

text \<open>The loop of \<open>_batchFetch\<close>: it returns when every id is stored, and what it returns.\<close>

lemma batchFetch_returns:
  "set ids \<subseteq> dom txns \<Longrightarrow>
     \<exists>ts. batchFetch txns ids = Inr ts \<and> length ts = length ids
          \<and> (\<forall>k < length ids. \<forall>raw. txns (ids ! k) = Some raw \<longrightarrow>
                ts ! k = (if numOutputs raw = None then raw\<lparr>numOutputs := Some 1\<rparr> else raw))"
proof (induction ids)
  case Nil
  then show ?case by simp
next
  case (Cons i ids)
  then obtain raw where raw: "txns i = Some raw" by auto
  from Cons obtain ts where ts: "batchFetch txns ids = Inr ts" "length ts = length ids"
    "\<forall>k < length ids. \<forall>raw. txns (ids ! k) = Some raw \<longrightarrow>
        ts ! k = (if numOutputs raw = None then raw\<lparr>numOutputs := Some 1\<rparr> else raw)"
    by auto
  show ?case
    using raw ts by (auto simp: fetch_raw_def nth_Cons split: nat.splits)
qed

lemma batchFetch_defined:
  "batchFetch txns ids = Inr ts \<Longrightarrow> t \<in> set ts \<Longrightarrow> numOutputs t \<noteq> None"
proof (induction ids arbitrary: ts)
  case Nil
  then show ?case by simp
next
  case (Cons i ids)
  then show ?case
    by (auto simp: fetch_raw_def bind_e_def split: option.splits sum.splits if_splits)
qed

text \<open>
  C9, as the code has it. A transaction that \<open>TransactionManager.init\<close> produces (it produces
  one for every input that passes the validation) has the \<open>numOutputs\<close> of the options
  when they give one, whatever number that is, and 1 when they give none; so it is a
  positive integer whenever the one given is. It carries no outputs and no error.
  \<open>_batchFetch\<close> returns, when every id is stored, the stored records in the order of the
  ids, with \<open>numOutputs\<close> set to 1 where the record had none; every transaction it returns
  has a \<open>numOutputs\<close>.
\<close>

theorem init_numOutputs:
  "(validateInput isP isM inp = Inr () \<longrightarrow>
      (\<exists>t. TransactionManager_init isP isM u now inp orig opts = Inr t
           \<and> numOutputs t = Some (case CompletionOptions.numOutputs opts of
                                    None \<Rightarrow> 1 | Some n \<Rightarrow> n)
           \<and> ((\<forall>n. CompletionOptions.numOutputs opts = Some n \<longrightarrow> positive_integer n) \<longrightarrow>
                (\<exists>n. numOutputs t = Some n \<and> positive_integer n))
           \<and> outputs t = None \<and> error t = None))
   \<and> (set ids \<subseteq> dom txns \<longrightarrow>
        (\<exists>ts. batchFetch txns ids = Inr ts \<and> length ts = length ids
              \<and> (\<forall>k < length ids. \<forall>raw. txns (ids ! k) = Some raw \<longrightarrow>
                    ts ! k = (if numOutputs raw = None
                              then raw\<lparr>numOutputs := Some 1\<rparr> else raw))))
   \<and> (\<forall>ts. batchFetch txns ids = Inr ts \<longrightarrow> (\<forall>t \<in> set ts. numOutputs t \<noteq> None))"
proof (intro conjI impI allI)
  assume "validateInput isP isM inp = Inr ()"
  then show "\<exists>t. TransactionManager_init isP isM u now inp orig opts = Inr t
           \<and> numOutputs t = Some (case CompletionOptions.numOutputs opts of
                                    None \<Rightarrow> 1 | Some n \<Rightarrow> n)
           \<and> ((\<forall>n. CompletionOptions.numOutputs opts = Some n \<longrightarrow> positive_integer n) \<longrightarrow>
                (\<exists>n. numOutputs t = Some n \<and> positive_integer n))
           \<and> outputs t = None \<and> error t = None"
    by (cases "CompletionOptions.numOutputs opts")
       (simp_all add: TransactionManager_init_def positive_integer_def)
next
  assume "set ids \<subseteq> dom txns"
  then show "\<exists>ts. batchFetch txns ids = Inr ts \<and> length ts = length ids
              \<and> (\<forall>k < length ids. \<forall>raw. txns (ids ! k) = Some raw \<longrightarrow>
                    ts ! k = (if numOutputs raw = None
                              then raw\<lparr>numOutputs := Some 1\<rparr> else raw))"
    by (rule batchFetch_returns)
next
  fix ts
  assume "batchFetch txns ids = Inr ts"
  then show "\<forall>t \<in> set ts. numOutputs t \<noteq> None"
    by (blast dest: batchFetch_defined)
qed

theorem init_numOutputs_witness:
  "(\<exists>t. TransactionManager_init isPromptInput isMessagesInput ''t1'' 1
          (JObj [(''prompt'', JStr ''Hello'')]) () no_options = Inr t
        \<and> numOutputs t = Some 1 \<and> outputs t = None \<and> error t = None)
   \<and> (\<exists>t. TransactionManager_init isPromptInput isMessagesInput ''t1'' 1
          (JObj [(''prompt'', JStr ''Hello'')]) ()
          (no_options\<lparr>CompletionOptions.numOutputs := Some 3\<rparr>) = Inr t
        \<and> numOutputs t = Some 3)
   \<and> (case batchFetch
             [''a'' \<mapsto> \<lparr> id_txn = ''a'', timestamp = 1, origin = (),
                          input = JObj [(''prompt'', JStr ''Hello'')], numOutputs = None,
                          temperature = None, maxTokens = None, stopSequences = None,
                          model = None, routedModel = None, numInferenceSteps = None,
                          mimeType = None, outputs = None, error = None \<rparr>]
             [''a''] of
         Inl e \<Rightarrow> [] | Inr ts \<Rightarrow> map numOutputs ts) = [Some 1]"
proof -
  have v: "validateInput isPromptInput isMessagesInput (JObj [(''prompt'', JStr ''Hello'')]) = Inr ()"
    by (simp add: validateInput_def isPromptInput_def obj_has_def)
  show ?thesis
    using init_numOutputs
            [where isP = isPromptInput and isM = isMessagesInput and u = "''t1''" and now = 1
               and inp = "JObj [(''prompt'', JStr ''Hello'')]" and orig = "()"
               and opts = no_options and ids = "[''a'']"
               and txns = "[''a'' \<mapsto> \<lparr> id_txn = ''a'', timestamp = 1, origin = (),
                          input = JObj [(''prompt'', JStr ''Hello'')], numOutputs = None,
                          temperature = None, maxTokens = None, stopSequences = None,
                          model = None, routedModel = None, numInferenceSteps = None,
                          mimeType = None, outputs = None, error = None \<rparr>]"]
          v
    by (simp add: TransactionManager_init_def no_options_def fetch_raw_def)
qed

text \<open>
  C9 as it is stated fails at options that ask for no output at all: \<open>numOutputs: 0\<close> is
  taken as it is, and the transaction has a \<open>numOutputs\<close> that is no positive integer.
\<close>

theorem init_numOutputs_counterexample:
  "(case TransactionManager_init isPromptInput isMessagesInput ''t1'' 1
           (JObj [(''prompt'', JStr ''Hello'')]) ()
           (no_options\<lparr>CompletionOptions.numOutputs := Some 0\<rparr>) of
      Inl e \<Rightarrow> None | Inr t \<Rightarrow> numOutputs t) = Some 0
   \<and> \<not> positive_integer 0"
  by (simp add: TransactionManager_init_def validateInput_def isPromptInput_def obj_has_def
                positive_integer_def)

end
